theory Spec2Isabelle
  imports Main
begin

section \<open>Tables\<close>

text \<open>
  The values of a CSV cell, and a pandas \<open>DataFrame\<close>: its number of rows (the index)
  and its labelled columns, in order. A frame that \<open>pd.read_csv\<close> returns has
  distinct labels (a repeated header is renamed \<open>x\<close>, \<open>x.1\<close>, ...); where a property
  depends on that, it assumes \<open>distinct (columns df)\<close>.
\<close>

datatype cell = IntCell int | StrCell string

record dataframe =
  nrows :: nat
  cols :: "(string \<times> cell list) list"

definition columns :: "dataframe \<Rightarrow> string list" where
  "columns df = map fst (cols df)"

text \<open>\<open>df[c]\<close> for one label, \<open>df.drop(columns=labels, errors="ignore")\<close>,
  \<open>df[labels]\<close> for a list of labels (a label that is not a column raises KeyError; a
  label is answered by every column that carries it), and \<open>df.shape[1]\<close>.\<close>

definition getitem :: "dataframe \<Rightarrow> string \<Rightarrow> cell list option" where
  "getitem df c = map_of (cols df) c"

definition drop_columns :: "string list \<Rightarrow> dataframe \<Rightarrow> dataframe" where
  "drop_columns labels df = df\<lparr>cols := filter (\<lambda>cv. fst cv \<notin> set labels) (cols df)\<rparr>"

definition getitem_list :: "dataframe \<Rightarrow> string list \<Rightarrow> string + dataframe" where
  "getitem_list df labels =
     (if list_all (\<lambda>c. c \<in> set (columns df)) labels
      then Inr (df\<lparr>cols := concat (map (\<lambda>c. filter (\<lambda>cv. fst cv = c) (cols df)) labels)\<rparr>)
      else Inl ''KeyError: not in index'')"

definition shape1 :: "dataframe \<Rightarrow> nat" where
  "shape1 df = length (cols df)"

text \<open>\<open>pd.DataFrame(preds, columns=labels)\<close> on a two-dimensional result given by its
  rows: every row needs one value per label, or the constructor raises ValueError. (A
  one-dimensional result of a single-target estimator is the same rows, each of length
  one.) \<open>df.insert(0, c, vs)\<close> raises ValueError when the label is already a column and
  when the values do not have one entry per row. \<open>df.head(n)\<close> keeps the first rows.\<close>

definition DataFrame :: "cell list list \<Rightarrow> string list \<Rightarrow> string + dataframe" where
  "DataFrame preds labels =
     (if list_all (\<lambda>r. length r = length labels) preds
      then Inr \<lparr>nrows = length preds,
                cols = map (\<lambda>j. (labels ! j, map (\<lambda>r. r ! j) preds)) [0..<length labels]\<rparr>
      else Inl ''Shape of passed values does not match the columns'')"

definition insert_col :: "dataframe \<Rightarrow> string \<Rightarrow> cell list \<Rightarrow> string + dataframe" where
  "insert_col df c vs =
     (if c \<in> set (columns df) then Inl ''cannot insert, already exists''
      else if length vs \<noteq> nrows df then Inl ''Length of values does not match length of index''
      else Inr (df\<lparr>cols := (c, vs) # cols df\<rparr>))"

definition head :: "nat \<Rightarrow> dataframe \<Rightarrow> dataframe" where
  "head n df = \<lparr>nrows = min n (nrows df), cols = map (\<lambda>cv. (fst cv, take n (snd cv))) (cols df)\<rparr>"

section \<open>Paths, file names and the clock\<close>

text \<open>\<open>os.path.splitext(p)[1]\<close> on a POSIX path: the text from the last dot of the
  last path component, unless only dots stand before it. \<open>str.lower\<close> on the ASCII
  letters. \<open>os.path.join(a, b)\<close> for two components.\<close>

definition basename :: "string \<Rightarrow> string" where
  "basename p = rev (takeWhile (\<lambda>c. c \<noteq> CHR ''/'') (rev p))"

definition splitext_ext :: "string \<Rightarrow> string" where
  "splitext_ext p =
     (let b = basename p;
          e = rev (takeWhile (\<lambda>c. c \<noteq> CHR ''.'') (rev b))
      in if CHR ''.'' \<in> set b \<and> list_ex (\<lambda>c. c \<noteq> CHR ''.'') (take (length b - length e - 1) b)
         then CHR ''.'' # e else [])"

definition lower_char :: "char \<Rightarrow> char" where
  "lower_char c =
     (case map_of (zip ''ABCDEFGHIJKLMNOPQRSTUVWXYZ'' ''abcdefghijklmnopqrstuvwxyz'') c of
        Some d \<Rightarrow> d
      | None \<Rightarrow> c)"

definition lower :: "string \<Rightarrow> string" where
  "lower s = map lower_char s"

definition ALLOWED_EXTENSIONS :: "string set" where
  "ALLOWED_EXTENSIONS = {''.csv''}"

definition allowed_file :: "string \<Rightarrow> bool" where
  "allowed_file filename = (lower (splitext_ext filename) \<in> ALLOWED_EXTENSIONS)"

definition UPLOAD_FOLDER :: string where
  "UPLOAD_FOLDER = ''uploads''"

definition path_join :: "string \<Rightarrow> string \<Rightarrow> string" where
  "path_join a b =
     (if b \<noteq> [] \<and> hd b = CHR ''/'' then b
      else if a = [] \<or> last a = CHR ''/'' then a @ b
      else a @ ''/'' @ b)"

text \<open>A reading of \<open>datetime.now()\<close>, and \<open>strftime("%Y%m%d_%H%M%S")\<close> on it: the
  zero-padded fields down to the second; the microsecond is not printed.\<close>

record datetime =
  year :: nat
  month :: nat
  day :: nat
  hour :: nat
  minute :: nat
  second :: nat
  microsecond :: nat

definition digit :: "nat \<Rightarrow> char" where
  "digit n = ''0123456789'' ! (n mod 10)"

definition pad2 :: "nat \<Rightarrow> string" where
  "pad2 n = [digit (n div 10), digit n]"

definition pad4 :: "nat \<Rightarrow> string" where
  "pad4 n = [digit (n div 1000), digit (n div 100), digit (n div 10), digit n]"

definition strftime :: "datetime \<Rightarrow> string" where
  "strftime t =
     pad4 (year t) @ pad2 (month t) @ pad2 (day t) @ ''_'' @
     pad2 (hour t) @ pad2 (minute t) @ pad2 (second t)"

section \<open>The process state and the collaborators\<close>

text \<open>
  The model handle is the unpickled estimator: its \<open>predict\<close> (a result, or the
  message of the exception it raised) and its \<open>n_features_in_\<close> attribute, when it has
  one. \<open>env\<close> holds what the module loads at import (\<open>model\<close>, \<open>target_cols\<close>,
  \<open>feature_cols\<close>, each \<open>None\<close> when it was not loaded) and the library functions the
  handlers call: \<open>pd.read_csv\<close> on the bytes of the saved upload (a frame, or the
  message of the exception), werkzeug's \<open>secure_filename\<close> and bcrypt.
\<close>

record model_handle =
  predict_fn :: "dataframe \<Rightarrow> string + cell list list"
  n_features_in :: "int option"

record env =
  model :: "model_handle option"
  target_cols :: "string list option"
  feature_cols :: "string list option"
  read_csv :: "string \<Rightarrow> string + dataframe"
  secure_filename :: "string \<Rightarrow> string"
  generate_password_hash :: "string \<Rightarrow> string"
  check_password_hash :: "string \<Rightarrow> string \<Rightarrow> bool"

text \<open>The Flask session (a dictionary of the client's cookie), the files under the
  working directory, and a row of the \<open>users\<close> table.\<close>

type_synonym session = "string \<rightharpoonup> string"

datatype filedata = Upload string | Csv dataframe

type_synonym files = "string \<rightharpoonup> filedata"

record user =
  uid :: string
  uname :: string
  uemail :: string
  upassword :: string

section \<open>Responses\<close>

text \<open>
  \<open>prediction_result\<close> is the text that \<open>predict\<close> hands to its template, one
  constructor per format string of the source, with the values the string is built
  from: the first ten missing names and whether the ellipsis follows; the expected and
  the actual number of features; the number of rows and the ten-row preview; the
  message of the exception caught. Plain bodies are given without the emoji that
  leads them in the source.
\<close>

datatype prediction_result =
    NoFileUploaded
  | InvalidFile
  | ModelNotLoaded
  | MissingFeatures "string list" bool
  | FeatureCountMismatch int nat
  | PredictionDone nat dataframe
  | Error string

datatype response =
    Page string
  | DashboardPage string "nat option" "int option"
  | PredictPage prediction_result
  | Redirect string
  | Body string nat
  | SendFile string string
  | Aborted nat

text \<open>What a request did besides answering: the effects of \<open>predict\<close>, in order.\<close>

datatype event =
    FileSaved string
  | ParseAttempted string
  | ModelInvoked dataframe
  | ResultWritten string dataframe
  | PointerSet string

record outcome =
  response :: response
  session_out :: session
  files_out :: files
  trace :: "event list"

text \<open>The frames the model was called on, and the result tables written, in a trace.\<close>

fun model_calls :: "event list \<Rightarrow> dataframe list" where
  "model_calls [] = []"
| "model_calls (ModelInvoked X # es) = X # model_calls es"
| "model_calls (ev # es) = model_calls es"

fun results_written :: "event list \<Rightarrow> (string \<times> dataframe) list" where
  "results_written [] = []"
| "results_written (ResultWritten p d # es) = (p, d) # results_written es"
| "results_written (ev # es) = results_written es"

definition quiet :: "response \<Rightarrow> session \<Rightarrow> files \<Rightarrow> outcome" where
  "quiet r sess fs = \<lparr>response = r, session_out = sess, files_out = fs, trace = []\<rparr>"

section \<open>The prediction handler\<close>

text \<open>
  Lines 139 to 147 of \<open>predict\<close>. \<open>if feature_cols:\<close> holds for a list that is
  loaded and not empty; \<open>if expected and ...\<close> holds for a number that is there and
  not zero.
\<close>

definition count_check :: "model_handle \<Rightarrow> dataframe \<Rightarrow> prediction_result + dataframe" where
  "count_check m X =
     (case n_features_in m of
        None \<Rightarrow> Inr X
      | Some expected \<Rightarrow>
          if expected \<noteq> 0 \<and> int (shape1 X) \<noteq> expected
          then Inl (FeatureCountMismatch expected (shape1 X))
          else Inr X)"

definition missing_features :: "string list \<Rightarrow> dataframe \<Rightarrow> string list" where
  "missing_features fc X = filter (\<lambda>c. c \<notin> set (columns X)) fc"

definition named_check :: "string list \<Rightarrow> dataframe \<Rightarrow> prediction_result + dataframe" where
  "named_check fc X =
     (let missing = missing_features fc X
      in if missing \<noteq> [] then Inl (MissingFeatures (take 10 missing) (10 < length missing))
         else (case getitem_list X fc of
                 Inl err \<Rightarrow> Inl (Error err)
               | Inr X' \<Rightarrow> Inr X'))"

definition align :: "env \<Rightarrow> model_handle \<Rightarrow> dataframe \<Rightarrow> prediction_result + dataframe" where
  "align e m X =
     (case feature_cols e of
        None \<Rightarrow> count_check m X
      | Some fc \<Rightarrow> if fc \<noteq> [] then named_check fc X else count_check m X)"

text \<open>Lines 150 to 152: the frame of the predictions under the target names, with the
  identifiers put back in front when the upload had them.\<close>

definition recompose :: "string list \<Rightarrow> cell list option \<Rightarrow> cell list list \<Rightarrow> string + dataframe" where
  "recompose tc ids preds =
     (case DataFrame preds tc of
        Inl err \<Rightarrow> Inl err
      | Inr pred_df \<Rightarrow>
          (case ids of
             None \<Rightarrow> Inr pred_df
           | Some vs \<Rightarrow> insert_col pred_df ''ID'' vs))"

text \<open>
  Lines 130 to 164, the \<open>try\<close> block: every exception raised inside it ends the request
  with the page \<open>Error\<close> of its message, and what was written before stays written.
  Writing a file and rendering the preview are taken to succeed. \<open>pd.read_csv\<close> reads
  the file saved the line before, so it is applied to the bytes of the upload.
\<close>

definition predict_try ::
  "env \<Rightarrow> model_handle \<Rightarrow> string list \<Rightarrow> string \<Rightarrow> string \<Rightarrow> datetime \<Rightarrow> session \<Rightarrow> files \<Rightarrow> outcome" where
  "predict_try e m tc filename content t sess fs =
     (let safe_name = secure_filename e filename;
          filepath = path_join UPLOAD_FOLDER safe_name;
          fs1 = fs(filepath \<mapsto> Upload content);
          tr1 = [FileSaved filepath, ParseAttempted filepath]
      in case read_csv e content of
           Inl err \<Rightarrow>
             \<lparr>response = PredictPage (Error err), session_out = sess, files_out = fs1, trace = tr1\<rparr>
         | Inr df \<Rightarrow>
             (let ids = (if ''ID'' \<in> set (columns df) then getitem df ''ID'' else None);
                  X = drop_columns [''ID''] df
              in case align e m X of
                   Inl r \<Rightarrow>
                     \<lparr>response = PredictPage r, session_out = sess, files_out = fs1, trace = tr1\<rparr>
                 | Inr X' \<Rightarrow>
                     (let tr2 = tr1 @ [ModelInvoked X']
                      in case predict_fn m X' of
                           Inl err \<Rightarrow>
                             \<lparr>response = PredictPage (Error err), session_out = sess,
                              files_out = fs1, trace = tr2\<rparr>
                         | Inr preds \<Rightarrow>
                             (case recompose tc ids preds of
                                Inl err \<Rightarrow>
                                  \<lparr>response = PredictPage (Error err), session_out = sess,
                                   files_out = fs1, trace = tr2\<rparr>
                              | Inr pred_df \<Rightarrow>
                                  (let ts = strftime t;
                                       out_name = ''predictions_'' @ ts @ ''.csv'';
                                       result_path = path_join UPLOAD_FOLDER out_name
                                   in \<lparr>response = PredictPage (PredictionDone (nrows pred_df) (head 10 pred_df)),
                                       session_out = sess(''last_prediction_csv'' \<mapsto> out_name),
                                       files_out = fs1(result_path \<mapsto> Csv pred_df),
                                       trace = tr2 @ [ResultWritten result_path pred_df,
                                                      PointerSet out_name]\<rparr>)))))"

datatype http_method = GET | POST

text \<open>Lines 116 to 128: the request's method, its \<open>file\<close> field (the name and the
  bytes of the upload, when the field is there) and the clock reading it will take.\<close>

definition predict ::
  "env \<Rightarrow> http_method \<Rightarrow> (string \<times> string) option \<Rightarrow> datetime \<Rightarrow> session \<Rightarrow> files \<Rightarrow> outcome" where
  "predict e meth file t sess fs =
     (if meth = GET then quiet (Page ''predict.html'') sess fs
      else case file of
             None \<Rightarrow> quiet (PredictPage NoFileUploaded) sess fs
           | Some (filename, content) \<Rightarrow>
               if filename = [] \<or> \<not> allowed_file filename
               then quiet (PredictPage InvalidFile) sess fs
               else (case model e of
                       None \<Rightarrow> quiet (PredictPage ModelNotLoaded) sess fs
                     | Some m \<Rightarrow>
                         (case target_cols e of
                            None \<Rightarrow> quiet (PredictPage ModelNotLoaded) sess fs
                          | Some tc \<Rightarrow> predict_try e m tc filename content t sess fs)))"

section \<open>The other handlers\<close>

text \<open>Lines 166 to 174. \<open>if not out_name\<close> holds for a missing key and for the empty
  string.\<close>

definition download :: "session \<Rightarrow> files \<Rightarrow> response" where
  "download sess fs =
     (case sess ''last_prediction_csv'' of
        None \<Rightarrow> Body ''No predictions available.'' 400
      | Some out_name \<Rightarrow>
          if out_name = [] then Body ''No predictions available.'' 400
          else (let result_path = path_join UPLOAD_FOLDER out_name
                in if result_path \<in> dom fs then SendFile result_path out_name
                   else Body ''Prediction file not found.'' 404))"

definition index :: response where
  "index = Page ''index.html''"

text \<open>Lines 59 to 75. The form is the posted fields (a missing field ends the request
  with status 400); \<open>ins\<close> is what the insert into \<open>users\<close> did: nothing, or the
  message of its exception.\<close>

definition signup :: "env \<Rightarrow> http_method \<Rightarrow> (string \<rightharpoonup> string) \<Rightarrow> string option \<Rightarrow> response" where
  "signup e meth form ins =
     (if meth = POST then
        (case form ''username'' of
           None \<Rightarrow> Aborted 400
         | Some username \<Rightarrow>
             (case form ''email'' of
                None \<Rightarrow> Aborted 400
              | Some email \<Rightarrow>
                  (case form ''password'' of
                     None \<Rightarrow> Aborted 400
                   | Some password \<Rightarrow>
                       (case ins of
                          Some err \<Rightarrow> Body (''Signup failed: '' @ err) 200
                        | None \<Rightarrow> Redirect ''/login''))))
      else Page ''signup.html'')"

text \<open>Lines 77 to 90. \<open>sel\<close> answers the query on \<open>users\<close> by email: the rows, or the
  message of an exception, which nothing catches (status 500).\<close>

definition login ::
  "env \<Rightarrow> http_method \<Rightarrow> (string \<rightharpoonup> string) \<Rightarrow> (string \<Rightarrow> string + user list) \<Rightarrow> session
     \<Rightarrow> response \<times> session" where
  "login e meth form sel sess =
     (if meth = POST then
        (case form ''email'' of
           None \<Rightarrow> (Aborted 400, sess)
         | Some email \<Rightarrow>
             (case form ''password'' of
                None \<Rightarrow> (Aborted 400, sess)
              | Some password \<Rightarrow>
                  (case sel email of
                     Inl err \<Rightarrow> (Aborted 500, sess)
                   | Inr user_data \<Rightarrow>
                       (case user_data of
                          [] \<Rightarrow> (Body ''Invalid credentials'' 200, sess)
                        | u # rest \<Rightarrow>
                            if check_password_hash e (upassword u) password
                            then (Redirect ''/dashboard'',
                                  sess(''user_id'' \<mapsto> uid u, ''username'' \<mapsto> uname u))
                            else (Body ''Invalid credentials'' 200, sess)))))
      else (Page ''login.html'', sess))"

text \<open>Lines 92 to 109.\<close>

definition dashboard :: "env \<Rightarrow> session \<Rightarrow> response" where
  "dashboard e sess =
     (if ''user_id'' \<notin> dom sess then Redirect ''/login''
      else (let expected_features = (case model e of None \<Rightarrow> None | Some m \<Rightarrow> n_features_in m);
                targets = (case target_cols e of
                             None \<Rightarrow> None
                           | Some tc \<Rightarrow> if tc \<noteq> [] then Some (length tc) else None)
            in case sess ''username'' of
                 None \<Rightarrow> Aborted 500
               | Some username \<Rightarrow> DashboardPage username targets expected_features))"

text \<open>Lines 111 to 114: \<open>session.clear()\<close>.\<close>

definition logout :: "session \<Rightarrow> response \<times> session" where
  "logout sess = (Redirect ''/'', Map.empty)"

section \<open>The application\<close>

text \<open>A request to one of the seven routes, with what the outside world answers
  while it is handled, and its effect on the caller's session and on the files.\<close>

datatype request =
    Index
  | Signup http_method "string \<rightharpoonup> string" "string option"
  | Login http_method "string \<rightharpoonup> string" "string \<Rightarrow> string + user list"
  | Dashboard
  | Logout
  | Predict http_method "(string \<times> string) option" datetime
  | Download

fun handle :: "env \<Rightarrow> request \<Rightarrow> session \<Rightarrow> files \<Rightarrow> response \<times> session \<times> files" where
  "handle e Index sess fs = (index, sess, fs)"
| "handle e (Signup meth form ins) sess fs = (signup e meth form ins, sess, fs)"
| "handle e (Login meth form sel) sess fs =
     (fst (login e meth form sel sess), snd (login e meth form sel sess), fs)"
| "handle e Dashboard sess fs = (dashboard e sess, sess, fs)"
| "handle e Logout sess fs = (fst (logout sess), snd (logout sess), fs)"
| "handle e (Predict meth file t) sess fs =
     (response (predict e meth file t sess fs),
      session_out (predict e meth file t sess fs),
      files_out (predict e meth file t sess fs))"
| "handle e Download sess fs = (download sess fs, sess, fs)"

text \<open>
  The states one session can be in: it starts empty, over any files; each of its
  requests is handled; and between two of them the files may change in any way (the
  requests of other sessions, and files removed from outside).
\<close>

inductive reachable :: "env \<Rightarrow> session \<Rightarrow> files \<Rightarrow> bool" for e :: env where
  fresh: "reachable e Map.empty fs"
| request: "reachable e sess fs \<Longrightarrow> handle e r sess fs = (resp, sess', fs') \<Longrightarrow> reachable e sess' fs'"
| outside: "reachable e sess fs \<Longrightarrow> reachable e sess fs'"

definition succeeded :: "response \<Rightarrow> bool" where
  "succeeded r = (case r of PredictPage (PredictionDone n tbl) \<Rightarrow> True | _ \<Rightarrow> False)"

section \<open>A worked example\<close>

text \<open>
  The example of the specification: a model fitted on \<open>x1\<close> and \<open>x2\<close> that predicts
  their sum as \<open>y\<close>, and uploads with the columns \<open>ID, x1, x2\<close>, with \<open>x1\<close> and \<open>x2\<close>
  swapped, and without \<open>x2\<close>. The estimator reads its columns by position, as a fitted
  estimator does.
\<close>

fun add_cell :: "cell \<Rightarrow> cell \<Rightarrow> cell" where
  "add_cell (IntCell a) (IntCell b) = IntCell (a + b)"
| "add_cell a b = StrCell ''nan''"

definition ex_predict :: "dataframe \<Rightarrow> string + cell list list" where
  "ex_predict X =
     (case cols X of
        [c1, c2] \<Rightarrow> Inr (map2 (\<lambda>u v. [add_cell u v]) (snd c1) (snd c2))
      | _ \<Rightarrow> Inl ''X has a different number of features than the model was fitted on'')"

definition ex_model :: model_handle where
  "ex_model = \<lparr>predict_fn = ex_predict, n_features_in = Some 2\<rparr>"

definition failing_model :: model_handle where
  "failing_model = \<lparr>predict_fn = (\<lambda>X. Inl ''could not convert string to float''),
                     n_features_in = Some 2\<rparr>"

definition df_ex :: dataframe where
  "df_ex = \<lparr>nrows = 2,
            cols = [(''ID'', [IntCell 1, IntCell 2]),
                    (''x1'', [IntCell 2, IntCell 5]),
                    (''x2'', [IntCell 3, IntCell 5])]\<rparr>"

definition df_swapped :: dataframe where
  "df_swapped = \<lparr>nrows = 2,
                 cols = [(''ID'', [IntCell 1, IntCell 2]),
                         (''x2'', [IntCell 3, IntCell 5]),
                         (''x1'', [IntCell 2, IntCell 5])]\<rparr>"

definition df_missing :: dataframe where
  "df_missing = \<lparr>nrows = 2,
                 cols = [(''ID'', [IntCell 1, IntCell 2]),
                         (''x1'', [IntCell 2, IntCell 5])]\<rparr>"

definition df_other :: dataframe where
  "df_other = \<lparr>nrows = 1,
               cols = [(''ID'', [IntCell 7]), (''x1'', [IntCell 1]), (''x2'', [IntCell 1])]\<rparr>"

definition csv_ex :: string where
  "csv_ex = ''ID,x1,x2\<newline>1,2,3\<newline>2,5,5\<newline>''"

definition csv_swapped :: string where
  "csv_swapped = ''ID,x2,x1\<newline>1,3,2\<newline>2,5,5\<newline>''"

definition csv_missing :: string where
  "csv_missing = ''ID,x1\<newline>1,2\<newline>2,5\<newline>''"

definition csv_other :: string where
  "csv_other = ''ID,x1,x2\<newline>7,1,1\<newline>''"

definition ex_read_csv :: "string \<Rightarrow> string + dataframe" where
  "ex_read_csv s =
     (if s = csv_ex then Inr df_ex
      else if s = csv_swapped then Inr df_swapped
      else if s = csv_missing then Inr df_missing
      else if s = csv_other then Inr df_other
      else Inl ''Error tokenizing data'')"

definition ex_env :: env where
  "ex_env = \<lparr>model = Some ex_model,
             target_cols = Some [''y''],
             feature_cols = Some [''x1'', ''x2''],
             read_csv = ex_read_csv,
             secure_filename = (\<lambda>s. s),
             generate_password_hash = (\<lambda>p. ''hash:'' @ p),
             check_password_hash = (\<lambda>h p. h = ''hash:'' @ p)\<rparr>"

definition t0 :: datetime where
  "t0 = \<lparr>year = 2024, month = 1, day = 2, hour = 3, minute = 4, second = 5, microsecond = 100000\<rparr>"

definition t1 :: datetime where
  "t1 = \<lparr>year = 2024, month = 1, day = 2, hour = 3, minute = 4, second = 5, microsecond = 900000\<rparr>"

definition no_session :: session where
  "no_session = Map.empty"

definition no_files :: files where
  "no_files = Map.empty"

definition pred_ex :: dataframe where
  "pred_ex = \<lparr>nrows = 2,
              cols = [(''ID'', [IntCell 1, IntCell 2]), (''y'', [IntCell 5, IntCell 10])]\<rparr>"

definition pred_other :: dataframe where
  "pred_other = \<lparr>nrows = 1, cols = [(''ID'', [IntCell 7]), (''y'', [IntCell 2])]\<rparr>"

definition X_ex :: dataframe where
  "X_ex = \<lparr>nrows = 2,
           cols = [(''x1'', [IntCell 2, IntCell 5]), (''x2'', [IntCell 3, IntCell 5])]\<rparr>"

definition X_other :: dataframe where
  "X_other = \<lparr>nrows = 1, cols = [(''x1'', [IntCell 1]), (''x2'', [IntCell 1])]\<rparr>"

definition run_ex :: outcome where
  "run_ex = predict ex_env POST (Some (''data.csv'', csv_ex)) t0 no_session no_files"

text \<open>A second upload, handled within the same second as the first, over the files
  the first left.\<close>

definition run_other :: outcome where
  "run_other = predict ex_env POST (Some (''other.csv'', csv_other)) t1 no_session (files_out run_ex)"

text \<open>The same process with an empty feature list, with no feature list and an estimator
  that reports zero features, and with an estimator that raises.\<close>

definition empty_list_env :: env where
  "empty_list_env = ex_env\<lparr>feature_cols := Some []\<rparr>"

definition zero_count_env :: env where
  "zero_count_env = ex_env\<lparr>model := Some (ex_model\<lparr>n_features_in := Some 0\<rparr>), feature_cols := None\<rparr>"

definition count_only_env :: env where
  "count_only_env = ex_env\<lparr>feature_cols := None\<rparr>"

definition failing_env :: env where
  "failing_env = ex_env\<lparr>model := Some failing_model\<rparr>"

definition logged_in :: session where
  "logged_in = [''user_id'' \<mapsto> ''17'', ''username'' \<mapsto> ''ada'']"

section \<open>Lemmas on tables and on the handlers\<close>

lemma predict_accepted:
  assumes "filename \<noteq> []" "allowed_file filename" "model e = Some m" "target_cols e = Some tc"
  shows "predict e POST (Some (filename, content)) t sess fs = predict_try e m tc filename content t sess fs"
  using assms by (simp add: predict_def)

lemma columns_drop: "columns (drop_columns ls df) = filter (\<lambda>c. c \<notin> set ls) (columns df)"
  by (simp add: columns_def drop_columns_def filter_map comp_def)

lemma ID_not_dropped: "''ID'' \<notin> set (columns (drop_columns [''ID''] df))"
  by (simp add: columns_drop)

lemma filter_label_distinct:
  "distinct (map fst xs) \<Longrightarrow> c \<in> fst ` set xs \<Longrightarrow> filter (\<lambda>cv. fst cv = c) xs = [(c, the (map_of xs c))]"
proof (induction xs)
  case Nil
  then show ?case by simp
next
  case (Cons x xs)
  show ?case
  proof (cases "fst x = c")
    case True
    from Cons.prems(1) have "fst x \<notin> fst ` set xs" by simp
    with True have "\<forall>y\<in>set xs. fst y \<noteq> c" by blast
    then have "filter (\<lambda>cv. fst cv = c) xs = []"
      by (simp add: filter_empty_conv)
    with True show ?thesis by (cases x) simp
  next
    case False
    with Cons show ?thesis by (cases x) auto
  qed
qed

lemma getitem_list_cols:
  assumes "distinct (columns X)" "set fc \<subseteq> set (columns X)"
  shows "getitem_list X fc = Inr (X\<lparr>cols := map (\<lambda>c. (c, the (getitem X c))) fc\<rparr>)"
proof -
  have "concat (map (\<lambda>c. filter (\<lambda>cv. fst cv = c) (cols X)) fc) = map (\<lambda>c. (c, the (map_of (cols X) c))) fc"
    using assms(2)
  proof (induction fc)
    case Nil
    then show ?case by simp
  next
    case (Cons c fc)
    then have "c \<in> fst ` set (cols X)" by (simp add: columns_def)
    with assms(1) have "filter (\<lambda>cv. fst cv = c) (cols X) = [(c, the (map_of (cols X) c))]"
      by (simp add: filter_label_distinct columns_def)
    with Cons show ?case by simp
  qed
  moreover have "list_all (\<lambda>c. c \<in> set (columns X)) fc"
    using assms(2) by (auto simp: list_all_iff)
  ultimately show ?thesis by (simp add: getitem_list_def getitem_def)
qed

lemma getitem_drop: "c \<notin> set ls \<Longrightarrow> getitem (drop_columns ls df) c = getitem df c"
proof -
  have "map_of (filter (\<lambda>cv. fst cv \<notin> set ls) xs) c = map_of xs c" if "c \<notin> set ls" for xs :: "(string \<times> cell list) list"
    using that by (induction xs) auto
  then show "c \<notin> set ls \<Longrightarrow> getitem (drop_columns ls df) c = getitem df c"
    by (simp add: getitem_def drop_columns_def)
qed

lemma predict_try_parsed:
  assumes "read_csv e content = Inr df"
  shows "predict_try e m tc filename content t sess fs =
    (let p = path_join UPLOAD_FOLDER (secure_filename e filename);
         fs1 = fs(p \<mapsto> Upload content);
         tr1 = [FileSaved p, ParseAttempted p]
     in case align e m (drop_columns [''ID''] df) of
          Inl r \<Rightarrow> \<lparr>response = PredictPage r, session_out = sess, files_out = fs1, trace = tr1\<rparr>
        | Inr X' \<Rightarrow>
           (case predict_fn m X' of
              Inl err \<Rightarrow> \<lparr>response = PredictPage (Error err), session_out = sess, files_out = fs1,
                           trace = tr1 @ [ModelInvoked X']\<rparr>
            | Inr preds \<Rightarrow>
               (case recompose tc (getitem df ''ID'') preds of
                  Inl err \<Rightarrow> \<lparr>response = PredictPage (Error err), session_out = sess, files_out = fs1,
                               trace = tr1 @ [ModelInvoked X']\<rparr>
                | Inr pred_df \<Rightarrow>
                    \<lparr>response = PredictPage (PredictionDone (nrows pred_df) (head 10 pred_df)),
                     session_out = sess(''last_prediction_csv'' \<mapsto> ''predictions_'' @ strftime t @ ''.csv''),
                     files_out = fs1(path_join UPLOAD_FOLDER (''predictions_'' @ strftime t @ ''.csv'') \<mapsto> Csv pred_df),
                     trace = tr1 @ [ModelInvoked X',
                        ResultWritten (path_join UPLOAD_FOLDER (''predictions_'' @ strftime t @ ''.csv'')) pred_df,
                        PointerSet (''predictions_'' @ strftime t @ ''.csv'')]\<rparr>)))"
proof -
  have ids: "(if ''ID'' \<in> set (columns df) then getitem df ''ID'' else None) = getitem df ''ID''"
    by (simp add: getitem_def columns_def map_of_eq_None_iff [symmetric] del: map_of_eq_None_iff)
  show ?thesis
    unfolding predict_try_def Let_def assms sum.case ids
    by (simp split: sum.split)
qed

lemma named_check_present:
  assumes "distinct (columns X)" "set fc \<subseteq> set (columns X)"
  shows "named_check fc X = Inr (X\<lparr>cols := map (\<lambda>c. (c, the (getitem X c))) fc\<rparr>)"
proof -
  from assms(2) have "missing_features fc X = []"
    by (auto simp: missing_features_def filter_empty_conv)
  then show ?thesis
    by (simp add: named_check_def getitem_list_cols [OF assms])
qed

lemma model_calls_try:
  assumes "read_csv e content = Inr df" "align e m (drop_columns [''ID''] df) = Inr X'"
  shows "model_calls (trace (predict_try e m tc filename content t sess fs)) = [X']"
  using assms(2) by (simp add: predict_try_parsed [OF assms(1)] Let_def split: sum.split)

lemma align_empty_list: "align (e\<lparr>feature_cols := Some []\<rparr>) m X = count_check m X"
  by (simp add: align_def)

lemma align_no_list: "align (e\<lparr>feature_cols := None\<rparr>) m X = count_check m X"
  by (simp add: align_def)

lemma DataFrame_columns: "DataFrame preds tc = Inr d \<Longrightarrow> columns d = tc \<and> nrows d = length preds"
  by (auto simp: DataFrame_def columns_def comp_def map_nth split: if_splits)

lemma recompose_with_ids:
  assumes "recompose tc (Some vs) preds = Inr pred_df"
  shows "cols pred_df \<noteq> [] \<and> hd (cols pred_df) = (''ID'', vs) \<and> columns pred_df = ''ID'' # tc \<and>
         nrows pred_df = length vs \<and> nrows pred_df = length preds"
proof -
  from assms obtain d where d: "DataFrame preds tc = Inr d" and i: "insert_col d ''ID'' vs = Inr pred_df"
    by (auto simp: recompose_def split: sum.splits)
  from i have "pred_df = d\<lparr>cols := (''ID'', vs) # cols d\<rparr>" and "length vs = nrows d"
    by (auto simp: insert_col_def split: if_splits)
  with DataFrame_columns [OF d] show ?thesis
    by (simp add: columns_def)
qed

lemma getitem_list_columns:
  "getitem_list X fc = Inr X' \<Longrightarrow> set (columns X') \<subseteq> set (columns X)"
  by (auto simp: getitem_list_def columns_def split: if_splits)

lemma align_columns: "align e m X = Inr X' \<Longrightarrow> set (columns X') \<subseteq> set (columns X)"
  by (auto simp: align_def named_check_def count_check_def Let_def
      dest!: getitem_list_columns split: option.splits if_splits sum.splits)

lemma model_calls_no_ID_try:
  "list_all (\<lambda>X. ''ID'' \<notin> set (columns X)) (model_calls (trace (predict_try e m tc filename content t sess fs)))"
proof (cases "read_csv e content")
  case (Inl err)
  then show ?thesis by (simp add: predict_try_def Let_def)
next
  case (Inr df)
  show ?thesis
  proof (cases "align e m (drop_columns [''ID''] df)")
    case (Inl r)
    then show ?thesis by (simp add: predict_try_parsed [OF Inr] Let_def)
  next
    case al: (Inr X')
    from align_columns [OF al] ID_not_dropped have "''ID'' \<notin> set (columns X')"
      by blast
    then show ?thesis
      by (simp add: model_calls_try [OF Inr al])
  qed
qed

lemma model_calls_no_ID:
  "list_all (\<lambda>X. ''ID'' \<notin> set (columns X)) (model_calls (trace (predict e meth upl t sess fs)))"
  by (simp add: predict_def quiet_def model_calls_no_ID_try split: option.split)

lemma succeeded_simps:
  "succeeded (PredictPage (PredictionDone n d))"
  "\<not> succeeded (PredictPage (Error msg))"
  "\<not> succeeded (PredictPage (MissingFeatures ms b))"
  "\<not> succeeded (PredictPage (FeatureCountMismatch k a))"
  "\<not> succeeded (PredictPage NoFileUploaded)"
  "\<not> succeeded (PredictPage InvalidFile)"
  "\<not> succeeded (PredictPage ModelNotLoaded)"
  "\<not> succeeded (Page p)"
  "\<not> succeeded (Redirect p)"
  "\<not> succeeded (Body p c)"
  "\<not> succeeded (SendFile p q)"
  "\<not> succeeded (Aborted c)"
  "\<not> succeeded (DashboardPage u tg ex)"
  by (simp_all add: succeeded_def)

lemma align_refusal: "align e m X = Inl r \<Longrightarrow> \<not> succeeded (PredictPage r)"
  by (auto simp: align_def named_check_def count_check_def Let_def succeeded_simps
      split: option.splits if_splits sum.splits)

lemma succeeded_try:
  assumes "read_csv e content = Inr df"
    and "succeeded (response (predict_try e m tc filename content t sess fs))"
  shows "\<exists>X' preds pred_df.
           align e m (drop_columns [''ID''] df) = Inr X' \<and> predict_fn m X' = Inr preds \<and>
           recompose tc (getitem df ''ID'') preds = Inr pred_df \<and>
           predict_try e m tc filename content t sess fs =
             \<lparr>response = PredictPage (PredictionDone (nrows pred_df) (head 10 pred_df)),
              session_out = sess(''last_prediction_csv'' \<mapsto> ''predictions_'' @ strftime t @ ''.csv''),
              files_out = (fs(path_join UPLOAD_FOLDER (secure_filename e filename) \<mapsto> Upload content))
                (path_join UPLOAD_FOLDER (''predictions_'' @ strftime t @ ''.csv'') \<mapsto> Csv pred_df),
              trace = [FileSaved (path_join UPLOAD_FOLDER (secure_filename e filename)),
                       ParseAttempted (path_join UPLOAD_FOLDER (secure_filename e filename)),
                       ModelInvoked X',
                       ResultWritten (path_join UPLOAD_FOLDER (''predictions_'' @ strftime t @ ''.csv'')) pred_df,
                       PointerSet (''predictions_'' @ strftime t @ ''.csv'')]\<rparr>"
  using assms(2) unfolding predict_try_parsed [OF assms(1)] Let_def
  by (auto simp: succeeded_simps dest: align_refusal split: sum.splits)

lemma predict_session_out:
  "session_out (predict e meth upl t sess fs) =
     (if succeeded (response (predict e meth upl t sess fs))
      then sess(''last_prediction_csv'' \<mapsto> ''predictions_'' @ strftime t @ ''.csv'')
      else sess)"
proof -
  have t: "session_out (predict_try e m tc fn c t sess fs) =
     (if succeeded (response (predict_try e m tc fn c t sess fs))
      then sess(''last_prediction_csv'' \<mapsto> ''predictions_'' @ strftime t @ ''.csv'')
      else sess)" for m tc fn c
  proof (cases "read_csv e c")
    case (Inl err)
    then show ?thesis by (simp add: predict_try_def Let_def succeeded_simps)
  next
    case (Inr df)
    show ?thesis
      unfolding predict_try_parsed [OF Inr] Let_def
      by (auto simp: succeeded_simps dest: align_refusal split: sum.splits)
  qed
  show ?thesis
    by (simp add: predict_def quiet_def succeeded_simps t split: option.split)
qed

lemma login_frame:
  "snd (login e meth form sel sess) ''last_prediction_csv'' = sess ''last_prediction_csv'' \<and>
   \<not> succeeded (fst (login e meth form sel sess))"
  by (simp add: login_def succeeded_simps split: option.split sum.split list.split)

lemma signup_not_succeeded: "\<not> succeeded (signup e meth form ins)"
  by (simp add: signup_def succeeded_simps split: option.split)

lemma dashboard_not_succeeded: "\<not> succeeded (dashboard e sess)"
  by (simp add: dashboard_def succeeded_simps Let_def split: option.split)

lemma download_not_succeeded: "\<not> succeeded (download sess fs)"
  by (simp add: download_def succeeded_simps Let_def split: option.split)

lemma handle_pointer_not_empty:
  assumes "handle e r sess fs = (resp, sess', fs')"
    and "sess ''last_prediction_csv'' \<noteq> Some []"
  shows "sess' ''last_prediction_csv'' \<noteq> Some []"
proof (cases r)
  case (Login meth form sel)
  with assms show ?thesis using login_frame [of e meth form sel sess] by auto
next
  case (Predict meth upl t)
  with assms show ?thesis by (auto simp: predict_session_out split: if_splits)
qed (use assms in \<open>auto simp: logout_def\<close>)

lemma pointer_not_empty:
  "reachable e sess fs \<Longrightarrow> sess ''last_prediction_csv'' \<noteq> Some []"
proof (induction rule: reachable.induct)
  case (fresh fs)
  then show ?case by simp
next
  case (request sess fs r resp sess' fs')
  from request.hyps(2) request.IH show ?case
    by (rule handle_pointer_not_empty)
next
  case (outside sess fs fs')
  then show ?case by simp
qed

section \<open>The worked example, evaluated\<close>

lemma allowed_data: "allowed_file ''data.csv''"
  by (simp add: allowed_file_def splitext_ext_def basename_def lower_def lower_char_def ALLOWED_EXTENSIONS_def)

lemma strftime_t0: "strftime t0 = ''20240102_030405''"
  by (simp add: strftime_def t0_def pad2_def pad4_def digit_def)

lemmas ex_defs = predict_try_def ex_env_def ex_read_csv_def csv_ex_def csv_swapped_def csv_missing_def
      csv_other_def df_ex_def df_swapped_def df_missing_def df_other_def
      columns_def getitem_def drop_columns_def align_def named_check_def missing_features_def count_check_def getitem_list_def
      ex_model_def ex_predict_def recompose_def DataFrame_def insert_col_def head_def shape1_def
      path_join_def UPLOAD_FOLDER_def pred_ex_def X_ex_def Let_def no_files_def no_session_def
      numeral_2_eq_2

lemma run_ex_eval: "run_ex = \<lparr>response = PredictPage (PredictionDone 2 pred_ex),
   session_out = no_session(''last_prediction_csv'' \<mapsto> ''predictions_20240102_030405.csv''),
   files_out = no_files(''uploads/data.csv'' \<mapsto> Upload csv_ex, ''uploads/predictions_20240102_030405.csv'' \<mapsto> Csv pred_ex),
   trace = [FileSaved ''uploads/data.csv'', ParseAttempted ''uploads/data.csv'', ModelInvoked X_ex,
     ResultWritten ''uploads/predictions_20240102_030405.csv'' pred_ex, PointerSet ''predictions_20240102_030405.csv'']\<rparr>"
  unfolding run_ex_def predict_def
  by (simp add: allowed_data strftime_t0 ex_defs)

lemmas env_defs = ex_env_def empty_list_env_def zero_count_env_def count_only_env_def failing_env_def
  failing_model_def

lemma read_csv_ex: "ex_read_csv csv_ex = Inr df_ex"
  by (simp add: ex_read_csv_def)

lemma read_csv_swapped: "ex_read_csv csv_swapped = Inr df_swapped"
  by (simp add: ex_read_csv_def csv_ex_def csv_swapped_def)

lemma read_csv_missing: "ex_read_csv csv_missing = Inr df_missing"
  by (simp add: ex_read_csv_def csv_ex_def csv_swapped_def csv_missing_def)

lemma read_csv_other: "ex_read_csv csv_other = Inr df_other"
  by (simp add: ex_read_csv_def csv_ex_def csv_swapped_def csv_missing_def csv_other_def)

lemma upload_path_ex: "path_join UPLOAD_FOLDER ''data.csv'' = ''uploads/data.csv''"
  by (simp add: path_join_def UPLOAD_FOLDER_def)

lemma drop_ID_ex: "drop_columns [''ID''] df_ex = X_ex"
  by (simp add: drop_columns_def df_ex_def X_ex_def)

lemma distinct_swapped: "distinct (columns df_swapped)"
  by (simp add: columns_def df_swapped_def)

lemma run_empty_list:
  "model_calls (trace (predict empty_list_env POST (Some (''data.csv'', csv_ex)) t0 no_session no_files)) = [X_ex]"
proof -
  have al: "align empty_list_env ex_model (drop_columns [''ID''] df_ex) = Inr X_ex"
    by (simp add: drop_ID_ex align_def empty_list_env_def ex_env_def count_check_def ex_model_def
        shape1_def X_ex_def)
  have rd: "read_csv empty_list_env csv_ex = Inr df_ex"
    by (simp add: empty_list_env_def ex_env_def read_csv_ex)
  have "model_calls (trace (predict_try empty_list_env ex_model [''y''] ''data.csv'' csv_ex t0 no_session no_files)) = [X_ex]"
    using rd al by (rule model_calls_try)
  then show ?thesis
    by (simp add: predict_def allowed_data empty_list_env_def ex_env_def)
qed

lemma drop_ID_missing_shape: "shape1 (drop_columns [''ID''] df_missing) = 1"
  by (simp add: shape1_def drop_columns_def df_missing_def)

lemma drop_ID_ex_shape: "shape1 (drop_columns [''ID''] df_ex) = 2"
  by (simp add: shape1_def drop_columns_def df_ex_def)

lemma X_ex_shape: "shape1 X_ex = 2"
  by (simp add: shape1_def X_ex_def)

lemma run_zero_count:
  "model_calls (trace (predict zero_count_env POST (Some (''data.csv'', csv_ex)) t0 no_session no_files)) = [X_ex]"
proof -
  have al: "align zero_count_env (ex_model\<lparr>n_features_in := Some 0\<rparr>) (drop_columns [''ID''] df_ex) = Inr X_ex"
    by (simp add: drop_ID_ex align_def env_defs count_check_def)
  have rd: "read_csv zero_count_env csv_ex = Inr df_ex"
    by (simp add: env_defs read_csv_ex)
  have "model_calls (trace (predict_try zero_count_env (ex_model\<lparr>n_features_in := Some 0\<rparr>) [''y'']
           ''data.csv'' csv_ex t0 no_session no_files)) = [X_ex]"
    using rd al by (rule model_calls_try)
  then show ?thesis
    by (simp add: predict_def allowed_data env_defs)
qed

lemma run_failing:
  "trace (predict failing_env POST (Some (''data.csv'', csv_ex)) t0 no_session no_files) =
     [FileSaved ''uploads/data.csv'', ParseAttempted ''uploads/data.csv'', ModelInvoked X_ex]"
  by (simp add: predict_def allowed_data env_defs predict_try_def read_csv_ex drop_ID_ex
      upload_path_ex Let_def align_def named_check_def missing_features_def getitem_list_def
      columns_def X_ex_def)

lemma strftime_t1: "strftime t1 = ''20240102_030405''"
  by (simp add: strftime_def t1_def pad2_def pad4_def digit_def)

lemma allowed_other: "allowed_file ''other.csv''"
  by (simp add: allowed_file_def splitext_ext_def basename_def lower_def lower_char_def ALLOWED_EXTENSIONS_def)

lemma run_ex_predict:
  "predict ex_env POST (Some (''data.csv'', csv_ex)) t0 no_session no_files =
   \<lparr>response = PredictPage (PredictionDone 2 pred_ex),
    session_out = no_session(''last_prediction_csv'' \<mapsto> ''predictions_20240102_030405.csv''),
    files_out = no_files(''uploads/data.csv'' \<mapsto> Upload csv_ex,
                          ''uploads/predictions_20240102_030405.csv'' \<mapsto> Csv pred_ex),
    trace = [FileSaved ''uploads/data.csv'', ParseAttempted ''uploads/data.csv'', ModelInvoked X_ex,
             ResultWritten ''uploads/predictions_20240102_030405.csv'' pred_ex,
             PointerSet ''predictions_20240102_030405.csv'']\<rparr>"
  using run_ex_eval by (simp add: run_ex_def)

lemma run_other_eval:
  "run_other =
   \<lparr>response = PredictPage (PredictionDone 1 pred_other),
    session_out = no_session(''last_prediction_csv'' \<mapsto> ''predictions_20240102_030405.csv''),
    files_out = no_files(''uploads/data.csv'' \<mapsto> Upload csv_ex,
                          ''uploads/other.csv'' \<mapsto> Upload csv_other,
                          ''uploads/predictions_20240102_030405.csv'' \<mapsto> Csv pred_other),
    trace = [FileSaved ''uploads/other.csv'', ParseAttempted ''uploads/other.csv'', ModelInvoked X_other,
             ResultWritten ''uploads/predictions_20240102_030405.csv'' pred_other,
             PointerSet ''predictions_20240102_030405.csv'']\<rparr>"
  unfolding run_other_def run_ex_eval predict_def
  by (simp add: allowed_other strftime_t1 ex_defs pred_other_def X_other_def fun_upd_twist)

lemma run_ex_handle:
  "handle ex_env (Predict POST (Some (''data.csv'', csv_ex)) t0) no_session no_files =
     (response run_ex, session_out run_ex, files_out run_ex)"
  by (simp add: run_ex_def)

lemma run_ex_pointer: "session_out run_ex ''last_prediction_csv'' = Some ''predictions_20240102_030405.csv''"
  by (simp add: run_ex_eval)

section \<open>The claims\<close>

subsection \<open>No authorization check in the prediction handler\<close>

text \<open>
  Claim C1, as amended: the prediction handler makes no authorization check. Its
  response, the files it writes and its effects (saving, parsing, calling the model,
  writing the result) are the same for any two sessions, logged in or not.
\<close>

theorem predict_ignores_session:
  "response (predict e meth file t s1 fs) = response (predict e meth file t s2 fs) \<and>
   files_out (predict e meth file t s1 fs) = files_out (predict e meth file t s2 fs) \<and>
   trace (predict e meth file t s1 fs) = trace (predict e meth file t s2 fs)"
  by (simp add: predict_def predict_try_def quiet_def Let_def split: option.split sum.split)

text \<open>The example upload from a session without \<open>user_id\<close> and from one with.\<close>

theorem predict_ignores_session_witness:
  "response (predict ex_env POST (Some (''data.csv'', csv_ex)) t0 no_session no_files) =
     response (predict ex_env POST (Some (''data.csv'', csv_ex)) t0 logged_in no_files) \<and>
   files_out (predict ex_env POST (Some (''data.csv'', csv_ex)) t0 no_session no_files) =
     files_out (predict ex_env POST (Some (''data.csv'', csv_ex)) t0 logged_in no_files) \<and>
   trace (predict ex_env POST (Some (''data.csv'', csv_ex)) t0 no_session no_files) =
     trace (predict ex_env POST (Some (''data.csv'', csv_ex)) t0 logged_in no_files)"
  by (rule predict_ignores_session)

text \<open>Claim C1 as stated fails: a request from a session without \<open>user_id\<close> is
  served; the upload is saved and parsed, the model is called and the result written.\<close>

theorem unauthorized_request_is_served:
  "no_session ''user_id'' = None \<and>
   response run_ex = PredictPage (PredictionDone 2 pred_ex) \<and>
   trace run_ex =
     [FileSaved ''uploads/data.csv'', ParseAttempted ''uploads/data.csv'', ModelInvoked X_ex,
      ResultWritten ''uploads/predictions_20240102_030405.csv'' pred_ex,
      PointerSet ''predictions_20240102_030405.csv'']"
  by (simp add: run_ex_eval no_session_def)

subsection \<open>Missing features end the request\<close>

text \<open>
  Claim C2. An upload that was accepted and parsed, and whose columns (the
  identifier set aside) lack a name of the loaded feature list, ends with the page
  \<open>MissingFeatures\<close>, listing the first ten missing names and whether more follow. The
  model is not called, no result table is written, the session is as it was, and the
  only file written is the saved upload.
\<close>

theorem missing_features_abort:
  assumes "filename \<noteq> []" and "allowed_file filename"
    and "model e = Some m" and "target_cols e = Some tc"
    and "read_csv e content = Inr df"
    and "feature_cols e = Some fc"
    and "\<not> set fc \<subseteq> set (columns (drop_columns [''ID''] df))"
  shows "missing_features fc (drop_columns [''ID''] df) \<noteq> [] \<and>
         response (predict e POST (Some (filename, content)) t sess fs) =
           PredictPage (MissingFeatures (take 10 (missing_features fc (drop_columns [''ID''] df)))
                          (10 < length (missing_features fc (drop_columns [''ID''] df)))) \<and>
         model_calls (trace (predict e POST (Some (filename, content)) t sess fs)) = [] \<and>
         results_written (trace (predict e POST (Some (filename, content)) t sess fs)) = [] \<and>
         session_out (predict e POST (Some (filename, content)) t sess fs) = sess \<and>
         files_out (predict e POST (Some (filename, content)) t sess fs) =
           fs(path_join UPLOAD_FOLDER (secure_filename e filename) \<mapsto> Upload content)"
proof -
  let ?X = "drop_columns [''ID''] df"
  from assms(7) have miss: "missing_features fc ?X \<noteq> []"
    by (auto simp: missing_features_def filter_empty_conv)
  then have "fc \<noteq> []" by (auto simp: missing_features_def)
  with miss assms(6) have al: "align e m ?X =
      Inl (MissingFeatures (take 10 (missing_features fc ?X)) (10 < length (missing_features fc ?X)))"
    by (simp add: align_def named_check_def Let_def)
  have "predict e POST (Some (filename, content)) t sess fs =
        predict_try e m tc filename content t sess fs"
    using assms(1-4) by (rule predict_accepted)
  then show ?thesis
    using miss al by (simp add: predict_try_parsed [OF assms(5)] Let_def)
qed

text \<open>The upload without \<open>x2\<close>.\<close>

theorem missing_features_abort_witness:
  "missing_features [''x1'', ''x2''] (drop_columns [''ID''] df_missing) \<noteq> [] \<and>
   response (predict ex_env POST (Some (''data.csv'', csv_missing)) t0 no_session no_files) =
     PredictPage (MissingFeatures [''x2''] False) \<and>
   model_calls (trace (predict ex_env POST (Some (''data.csv'', csv_missing)) t0 no_session no_files)) = [] \<and>
   results_written (trace (predict ex_env POST (Some (''data.csv'', csv_missing)) t0 no_session no_files)) = [] \<and>
   session_out (predict ex_env POST (Some (''data.csv'', csv_missing)) t0 no_session no_files) = no_session \<and>
   files_out (predict ex_env POST (Some (''data.csv'', csv_missing)) t0 no_session no_files) =
     no_files(''uploads/data.csv'' \<mapsto> Upload csv_missing)"
proof -
  have 1: "''data.csv'' \<noteq> []" by simp
  have 3: "model ex_env = Some ex_model" by (simp add: ex_env_def)
  have 4: "target_cols ex_env = Some [''y'']" by (simp add: ex_env_def)
  have 5: "read_csv ex_env csv_missing = Inr df_missing"
    by (simp add: ex_env_def ex_read_csv_def csv_ex_def csv_swapped_def csv_missing_def)
  have 6: "feature_cols ex_env = Some [''x1'', ''x2'']" by (simp add: ex_env_def)
  have 7: "\<not> set [''x1'', ''x2''] \<subseteq> set (columns (drop_columns [''ID''] df_missing))"
    by (simp add: columns_def drop_columns_def df_missing_def)
  have m: "missing_features [''x1'', ''x2''] (drop_columns [''ID''] df_missing) = [''x2'']"
    by (simp add: missing_features_def columns_def drop_columns_def df_missing_def)
  have p: "path_join UPLOAD_FOLDER (secure_filename ex_env ''data.csv'') = ''uploads/data.csv''"
    by (simp add: path_join_def UPLOAD_FOLDER_def ex_env_def)
  show ?thesis
    using missing_features_abort [OF 1 allowed_data 3 4 5 6 7, of t0 no_session no_files]
    by (simp add: m p)
qed

subsection \<open>Selection and reordering under a named schema\<close>

text \<open>
  Claim C3, as amended: the feature list is loaded and not empty. An upload that was accepted
  and parsed, whose columns (the identifier set aside) include every name of
  the list, in any order and with any extra columns, reaches the model once, as the
  frame of exactly the listed columns in the order of the list, each with the values
  the upload gave it.
\<close>

theorem named_schema_reorders:
  assumes "filename \<noteq> []" and "allowed_file filename"
    and "model e = Some m" and "target_cols e = Some tc"
    and "read_csv e content = Inr df" and "distinct (columns df)"
    and "feature_cols e = Some fc" and "fc \<noteq> []"
    and "set fc \<subseteq> set (columns (drop_columns [''ID''] df))"
  shows "model_calls (trace (predict e POST (Some (filename, content)) t sess fs)) =
           [df\<lparr>cols := map (\<lambda>c. (c, the (getitem df c))) fc\<rparr>] \<and>
         columns (df\<lparr>cols := map (\<lambda>c. (c, the (getitem df c))) fc\<rparr>) = fc"
proof -
  let ?X = "drop_columns [''ID''] df"
  have dX: "distinct (columns ?X)"
    using assms(6) by (simp add: columns_drop)
  have "''ID'' \<notin> set fc"
    using assms(9) ID_not_dropped by blast
  then have "\<forall>c\<in>set fc. c \<notin> set [''ID'']"
    by auto
  then have "map (\<lambda>c. (c, the (getitem ?X c))) fc = map (\<lambda>c. (c, the (getitem df c))) fc"
    by (simp add: getitem_drop)
  then have "named_check fc ?X = Inr (?X\<lparr>cols := map (\<lambda>c. (c, the (getitem df c))) fc\<rparr>)"
    by (simp only: named_check_present [OF dX assms(9)])
  moreover have "?X\<lparr>cols := map (\<lambda>c. (c, the (getitem df c))) fc\<rparr> =
      df\<lparr>cols := map (\<lambda>c. (c, the (getitem df c))) fc\<rparr>"
    by (simp add: drop_columns_def)
  ultimately have "named_check fc ?X = Inr (df\<lparr>cols := map (\<lambda>c. (c, the (getitem df c))) fc\<rparr>)"
    by simp
  then have al: "align e m ?X = Inr (df\<lparr>cols := map (\<lambda>c. (c, the (getitem df c))) fc\<rparr>)"
    using assms(7,8) by (simp add: align_def)
  have "predict e POST (Some (filename, content)) t sess fs =
        predict_try e m tc filename content t sess fs"
    using assms(1-4) by (rule predict_accepted)
  then show ?thesis
    by (simp add: model_calls_try [OF assms(5) al] columns_def comp_def)
qed

text \<open>The upload with \<open>x2\<close> before \<open>x1\<close> reaches the model as \<open>x1, x2\<close>.\<close>

theorem named_schema_reorders_witness:
  "model_calls (trace (predict ex_env POST (Some (''data.csv'', csv_swapped)) t0 no_session no_files)) = [X_ex] \<and>
   columns X_ex = [''x1'', ''x2''] \<and>
   columns (drop_columns [''ID''] df_swapped) = [''x2'', ''x1'']"
proof -
  have 1: "''data.csv'' \<noteq> []" by simp
  have 3: "model ex_env = Some ex_model" by (simp add: ex_env_def)
  have 4: "target_cols ex_env = Some [''y'']" by (simp add: ex_env_def)
  have 5: "read_csv ex_env csv_swapped = Inr df_swapped"
    by (simp add: ex_env_def read_csv_swapped)
  have 7: "feature_cols ex_env = Some [''x1'', ''x2'']" by (simp add: ex_env_def)
  have 8: "[''x1'', ''x2''] \<noteq> []" by simp
  have 9: "set [''x1'', ''x2''] \<subseteq> set (columns (drop_columns [''ID''] df_swapped))"
    by (simp add: columns_def drop_columns_def df_swapped_def)
  have x: "df_swapped\<lparr>cols := map (\<lambda>c. (c, the (getitem df_swapped c))) [''x1'', ''x2'']\<rparr> = X_ex"
    by (simp add: df_swapped_def getitem_def X_ex_def)
  have c: "columns (drop_columns [''ID''] df_swapped) = [''x2'', ''x1'']"
    by (simp add: columns_def drop_columns_def df_swapped_def)
  show ?thesis
    using named_schema_reorders [OF 1 allowed_data 3 4 5 distinct_swapped 7 8 9, of t0 no_session no_files]
    unfolding x by (simp add: c)
qed

text \<open>Claim C3 as stated fails for a feature list that is loaded and empty: every
  upload is a superset of it, and the model receives the upload's own columns, not the
  columns of the list.\<close>

theorem empty_list_counterexample:
  "feature_cols empty_list_env = Some [] \<and>
   model_calls (trace (predict empty_list_env POST (Some (''data.csv'', csv_ex)) t0 no_session no_files)) = [X_ex] \<and>
   columns X_ex = [''x1'', ''x2''] \<and>
   columns X_ex \<noteq> []"
  using run_empty_list by (simp add: empty_list_env_def columns_def X_ex_def)

subsection \<open>The identifier column\<close>

text \<open>
  Claim C4. When a request succeeds on an upload that has a column \<open>ID\<close>, the table
  written (and recorded for download) has \<open>ID\<close> as its first column, with the values of
  the upload's \<open>ID\<close> column in the same order, followed by the target columns. No frame
  the model is called on, in any request, has a column \<open>ID\<close>.
\<close>

theorem identifier_reattached:
  "list_all (\<lambda>X. ''ID'' \<notin> set (columns X))
     (model_calls (trace (predict e meth (Some (filename, content)) t sess fs))) \<and>
   (read_csv e content = Inr df \<and> distinct (columns df) \<and> ''ID'' \<in> set (columns df) \<and>
    succeeded (response (predict e meth (Some (filename, content)) t sess fs)) \<longrightarrow>
      (\<exists>ids tc pred_df.
         getitem df ''ID'' = Some ids \<and> target_cols e = Some tc \<and>
         response (predict e meth (Some (filename, content)) t sess fs) =
           PredictPage (PredictionDone (nrows pred_df) (head 10 pred_df)) \<and>
         results_written (trace (predict e meth (Some (filename, content)) t sess fs)) =
           [(path_join UPLOAD_FOLDER (''predictions_'' @ strftime t @ ''.csv''), pred_df)] \<and>
         files_out (predict e meth (Some (filename, content)) t sess fs)
           (path_join UPLOAD_FOLDER (''predictions_'' @ strftime t @ ''.csv'')) = Some (Csv pred_df) \<and>
         hd (cols pred_df) = (''ID'', ids) \<and> columns pred_df = ''ID'' # tc \<and>
         nrows pred_df = length ids))"
proof (intro conjI impI)
  show "list_all (\<lambda>X. ''ID'' \<notin> set (columns X))
     (model_calls (trace (predict e meth (Some (filename, content)) t sess fs)))"
    by (rule model_calls_no_ID)
next
  let ?out = "predict e meth (Some (filename, content)) t sess fs"
  assume a: "read_csv e content = Inr df \<and> distinct (columns df) \<and> ''ID'' \<in> set (columns df) \<and>
    succeeded (response ?out)"
  then have rd: "read_csv e content = Inr df" and s: "succeeded (response ?out)"
    and "''ID'' \<in> set (columns df)"
    by simp_all
  then obtain ids where ids: "getitem df ''ID'' = Some ids"
    by (auto simp: getitem_def columns_def dest: weak_map_of_SomeI)
  from s obtain m tc where tc: "target_cols e = Some tc"
    and p: "?out = predict_try e m tc filename content t sess fs"
    by (auto simp: predict_def quiet_def succeeded_simps split: if_splits option.splits)
  from succeeded_try [OF rd] s p obtain X' preds pred_df where
    r: "recompose tc (getitem df ''ID'') preds = Inr pred_df" and
    o: "?out = \<lparr>response = PredictPage (PredictionDone (nrows pred_df) (head 10 pred_df)),
              session_out = sess(''last_prediction_csv'' \<mapsto> ''predictions_'' @ strftime t @ ''.csv''),
              files_out = (fs(path_join UPLOAD_FOLDER (secure_filename e filename) \<mapsto> Upload content))
                (path_join UPLOAD_FOLDER (''predictions_'' @ strftime t @ ''.csv'') \<mapsto> Csv pred_df),
              trace = [FileSaved (path_join UPLOAD_FOLDER (secure_filename e filename)),
                       ParseAttempted (path_join UPLOAD_FOLDER (secure_filename e filename)),
                       ModelInvoked X',
                       ResultWritten (path_join UPLOAD_FOLDER (''predictions_'' @ strftime t @ ''.csv'')) pred_df,
                       PointerSet (''predictions_'' @ strftime t @ ''.csv'')]\<rparr>"
    by metis
  from r ids have "recompose tc (Some ids) preds = Inr pred_df" by simp
  from recompose_with_ids [OF this] ids tc
  show "\<exists>ids tc pred_df.
         getitem df ''ID'' = Some ids \<and> target_cols e = Some tc \<and>
         response ?out = PredictPage (PredictionDone (nrows pred_df) (head 10 pred_df)) \<and>
         results_written (trace ?out) =
           [(path_join UPLOAD_FOLDER (''predictions_'' @ strftime t @ ''.csv''), pred_df)] \<and>
         files_out ?out (path_join UPLOAD_FOLDER (''predictions_'' @ strftime t @ ''.csv'')) = Some (Csv pred_df) \<and>
         hd (cols pred_df) = (''ID'', ids) \<and> columns pred_df = ''ID'' # tc \<and>
         nrows pred_df = length ids"
    unfolding o by simp
qed

text \<open>The example of the specification: identifiers 1 and 2, predictions 5 and 10.\<close>

theorem identifier_reattached_witness:
  "getitem df_ex ''ID'' = Some [IntCell 1, IntCell 2] \<and>
   files_out run_ex ''uploads/predictions_20240102_030405.csv'' = Some (Csv pred_ex) \<and>
   hd (cols pred_ex) = (''ID'', [IntCell 1, IntCell 2]) \<and>
   columns pred_ex = [''ID'', ''y''] \<and>
   model_calls (trace run_ex) = [X_ex] \<and>
   ''ID'' \<notin> set (columns X_ex)"
proof -
  let ?out = "predict ex_env POST (Some (''data.csv'', csv_ex)) t0 no_session no_files"
  have "read_csv ex_env csv_ex = Inr df_ex"
    by (simp add: ex_env_def read_csv_ex)
  moreover have "distinct (columns df_ex)" and "''ID'' \<in> set (columns df_ex)"
    by (simp_all add: columns_def df_ex_def)
  moreover have "succeeded (response ?out)"
    by (simp add: run_ex_predict succeeded_simps)
  ultimately have h: "read_csv ex_env csv_ex = Inr df_ex \<and> distinct (columns df_ex) \<and>
      ''ID'' \<in> set (columns df_ex) \<and> succeeded (response ?out)"
    by simp
  have ids: "getitem df_ex ''ID'' = Some [IntCell 1, IntCell 2]"
    by (simp add: getitem_def df_ex_def)
  have path: "path_join UPLOAD_FOLDER (''predictions_'' @ strftime t0 @ ''.csv'') =
      ''uploads/predictions_20240102_030405.csv''"
    by (simp add: path_join_def UPLOAD_FOLDER_def strftime_t0)
  from identifier_reattached [of ex_env POST "''data.csv''" csv_ex t0 no_session no_files df_ex] h
  obtain ids tc pred_df where
    i: "getitem df_ex ''ID'' = Some ids" and tcs: "target_cols ex_env = Some tc" and
    f: "files_out ?out (path_join UPLOAD_FOLDER (''predictions_'' @ strftime t0 @ ''.csv'')) = Some (Csv pred_df)" and
    hdc: "hd (cols pred_df) = (''ID'', ids)" and cl: "columns pred_df = ''ID'' # tc" and
    no_id: "list_all (\<lambda>X. ''ID'' \<notin> set (columns X)) (model_calls (trace ?out))"
    by blast
  from i ids have ids_eq: "ids = [IntCell 1, IntCell 2]" by simp
  from tcs have tc_eq: "tc = [''y'']" by (simp add: ex_env_def)
  from f have f': "files_out run_ex ''uploads/predictions_20240102_030405.csv'' = Some (Csv pred_df)"
    unfolding path run_ex_def .
  then have pe: "pred_df = pred_ex" by (simp add: run_ex_eval)
  have mc: "model_calls (trace run_ex) = [X_ex]" by (simp add: run_ex_eval)
  from no_id have "list_all (\<lambda>X. ''ID'' \<notin> set (columns X)) (model_calls (trace run_ex))"
    unfolding run_ex_def .
  with mc have "''ID'' \<notin> set (columns X_ex)" by simp
  with ids f' hdc cl mc show ?thesis
    unfolding pe ids_eq tc_eq by simp
qed

subsection \<open>The name of the result file\<close>

text \<open>
  Claim C5 fails on the code. Two successful requests whose clock readings differ only
  in the microsecond are written under the same name: the second table replaces the
  first, and both sessions point to it.
\<close>

theorem same_second_collision:
  "t0 \<noteq> t1 \<and>
   succeeded (response run_ex) \<and> succeeded (response run_other) \<and>
   results_written (trace run_ex) = [(''uploads/predictions_20240102_030405.csv'', pred_ex)] \<and>
   results_written (trace run_other) = [(''uploads/predictions_20240102_030405.csv'', pred_other)] \<and>
   files_out run_ex ''uploads/predictions_20240102_030405.csv'' = Some (Csv pred_ex) \<and>
   files_out run_other ''uploads/predictions_20240102_030405.csv'' = Some (Csv pred_other) \<and>
   session_out run_ex ''last_prediction_csv'' = session_out run_other ''last_prediction_csv'' \<and>
   pred_ex \<noteq> pred_other"
  by (simp add: run_ex_eval run_other_eval succeeded_simps t0_def t1_def pred_ex_def pred_other_def)

subsection \<open>The two failures of a download\<close>

text \<open>
  Claim C6. In every state a session can reach, a download with no recorded result is
  answered "No predictions available." with status 400, a download whose recorded file
  is not there is answered "Prediction file not found." with status 404, and the two
  answers differ.
\<close>

theorem download_distinguishes_causes:
  assumes "reachable e sess fs"
  shows "(sess ''last_prediction_csv'' = None \<longrightarrow>
            download sess fs = Body ''No predictions available.'' 400) \<and>
         (\<forall>n. sess ''last_prediction_csv'' = Some n \<and> path_join UPLOAD_FOLDER n \<notin> dom fs \<longrightarrow>
            download sess fs = Body ''Prediction file not found.'' 404) \<and>
         Body ''No predictions available.'' 400 \<noteq> Body ''Prediction file not found.'' 404"
  using pointer_not_empty [OF assms] by (auto simp: download_def Let_def)

text \<open>A fresh session, and the session of the example after its result file was
  removed.\<close>

theorem download_distinguishes_causes_witness:
  "download no_session no_files = Body ''No predictions available.'' 400 \<and>
   session_out run_ex ''last_prediction_csv'' = Some ''predictions_20240102_030405.csv'' \<and>
   download (session_out run_ex) no_files = Body ''Prediction file not found.'' 404"
proof -
  have r0: "reachable ex_env no_session no_files"
    unfolding no_session_def by (rule reachable.fresh)
  from r0 run_ex_handle have "reachable ex_env (session_out run_ex) (files_out run_ex)"
    by (rule reachable.request)
  then have r1: "reachable ex_env (session_out run_ex) no_files"
    by (rule reachable.outside)
  have gone: "path_join UPLOAD_FOLDER ''predictions_20240102_030405.csv'' \<notin> dom no_files"
    by (simp add: no_files_def)
  show ?thesis
    using download_distinguishes_causes [OF r0] download_distinguishes_causes [OF r1]
      run_ex_pointer gone
    by (simp add: no_session_def)
qed

subsection \<open>Who changes the recorded result\<close>

text \<open>
  Claim C7, as amended: logout clears the session, and the recorded result with it.
  Every other request that is not a successful prediction leaves the recorded result as
  it was, and only a successful prediction sets it, to the name it wrote.
\<close>

theorem pointer_frame:
  assumes "handle e r sess fs = (resp, sess', fs')"
  shows "(r = Logout \<longrightarrow> sess' = Map.empty) \<and>
         (r \<noteq> Logout \<and> \<not> succeeded resp \<longrightarrow>
            sess' ''last_prediction_csv'' = sess ''last_prediction_csv'') \<and>
         (succeeded resp \<longrightarrow>
            (\<exists>meth upl t. r = Predict meth upl t \<and>
               sess' ''last_prediction_csv'' = Some (''predictions_'' @ strftime t @ ''.csv'')))"
proof (cases r)
  case Index
  with assms show ?thesis by (auto simp: index_def succeeded_simps)
next
  case (Signup meth form ins)
  with assms show ?thesis using signup_not_succeeded by auto
next
  case (Login meth form sel)
  with assms show ?thesis using login_frame [of e meth form sel sess] by auto
next
  case Dashboard
  with assms show ?thesis using dashboard_not_succeeded by auto
next
  case Logout
  with assms show ?thesis by (auto simp: logout_def succeeded_simps)
next
  case (Predict meth upl t)
  with assms show ?thesis by (auto simp: predict_session_out)
next
  case Download
  with assms show ?thesis using download_not_succeeded by auto
qed

text \<open>A download and a failed prediction after the example, and the example itself.\<close>

theorem pointer_frame_witness:
  "fst (snd (handle ex_env Download (session_out run_ex) (files_out run_ex))) ''last_prediction_csv'' =
     Some ''predictions_20240102_030405.csv'' \<and>
   fst (snd (handle ex_env Logout (session_out run_ex) (files_out run_ex))) = Map.empty \<and>
   fst (snd (handle ex_env (Predict POST (Some (''data.csv'', csv_ex)) t0) no_session no_files))
     ''last_prediction_csv'' = Some (''predictions_'' @ strftime t0 @ ''.csv'')"
proof -
  have c: "handle e r s f = (fst (handle e r s f), fst (snd (handle e r s f)), snd (snd (handle e r s f)))"
    for e r s f
    by simp
  have d: "\<not> succeeded (fst (handle ex_env Download (session_out run_ex) (files_out run_ex)))"
    by (simp add: download_not_succeeded)
  have p: "succeeded (fst (handle ex_env (Predict POST (Some (''data.csv'', csv_ex)) t0) no_session no_files))"
    by (simp add: run_ex_predict succeeded_simps)
  show ?thesis
    using pointer_frame [OF c [of ex_env Download "session_out run_ex" "files_out run_ex"]]
      pointer_frame [OF c [of ex_env Logout "session_out run_ex" "files_out run_ex"]]
      pointer_frame [OF c [of ex_env "Predict POST (Some (''data.csv'', csv_ex)) t0" no_session no_files]]
      d p run_ex_pointer
    by auto
qed

text \<open>Claim C7 as stated fails at logout: it is not a successful prediction, and the
  recorded result is gone after it.\<close>

theorem logout_clears_pointer:
  "\<not> succeeded (fst (handle ex_env Logout (session_out run_ex) (files_out run_ex))) \<and>
   session_out run_ex ''last_prediction_csv'' = Some ''predictions_20240102_030405.csv'' \<and>
   fst (snd (handle ex_env Logout (session_out run_ex) (files_out run_ex))) ''last_prediction_csv'' = None"
  by (simp add: logout_def succeeded_simps run_ex_pointer)

subsection \<open>Validation by count\<close>

text \<open>
  Claim C8, as amended: the expected count is there and is not zero. With no feature
  list in force, an upload whose number of columns (the identifier set aside) differs
  from the count ends with the page \<open>FeatureCountMismatch\<close> of the expected and the
  actual number, before any call of the model; when the numbers agree the model is
  called on the upload's columns as they stand.
\<close>

theorem count_only_validation:
  assumes "filename \<noteq> []" and "allowed_file filename"
    and "model e = Some m" and "target_cols e = Some tc"
    and "read_csv e content = Inr df"
    and "feature_cols e = None \<or> feature_cols e = Some []"
    and "n_features_in m = Some k" and "k \<noteq> 0"
  shows "(int (shape1 (drop_columns [''ID''] df)) \<noteq> k \<longrightarrow>
            response (predict e POST (Some (filename, content)) t sess fs) =
              PredictPage (FeatureCountMismatch k (shape1 (drop_columns [''ID''] df))) \<and>
            model_calls (trace (predict e POST (Some (filename, content)) t sess fs)) = [] \<and>
            results_written (trace (predict e POST (Some (filename, content)) t sess fs)) = [] \<and>
            session_out (predict e POST (Some (filename, content)) t sess fs) = sess) \<and>
         (int (shape1 (drop_columns [''ID''] df)) = k \<longrightarrow>
            model_calls (trace (predict e POST (Some (filename, content)) t sess fs)) =
              [drop_columns [''ID''] df])"
proof -
  let ?X = "drop_columns [''ID''] df"
  have al: "align e m ?X = count_check m ?X"
    using assms(6) by (auto simp: align_def)
  have p: "predict e POST (Some (filename, content)) t sess fs =
        predict_try e m tc filename content t sess fs"
    using assms(1-4) by (rule predict_accepted)
  show ?thesis
  proof (cases "int (shape1 ?X) = k")
    case True
    with al assms(7) have "align e m ?X = Inr ?X"
      by (simp add: count_check_def)
    with True show ?thesis
      by (simp add: p model_calls_try [OF assms(5)])
  next
    case False
    with al assms(7,8) have "align e m ?X = Inl (FeatureCountMismatch k (shape1 ?X))"
      by (simp add: count_check_def)
    with False show ?thesis
      by (simp add: p predict_try_parsed [OF assms(5)] Let_def)
  qed
qed

text \<open>Two features expected: one column is refused, two columns in upload order are
  passed on.\<close>

theorem count_only_validation_witness:
  "response (predict count_only_env POST (Some (''data.csv'', csv_missing)) t0 no_session no_files) =
     PredictPage (FeatureCountMismatch 2 1) \<and>
   model_calls (trace (predict count_only_env POST (Some (''data.csv'', csv_missing)) t0 no_session no_files)) = [] \<and>
   model_calls (trace (predict count_only_env POST (Some (''data.csv'', csv_ex)) t0 no_session no_files)) = [X_ex]"
proof -
  have 1: "''data.csv'' \<noteq> []" by simp
  have 3: "model count_only_env = Some ex_model" by (simp add: env_defs)
  have 4: "target_cols count_only_env = Some [''y'']" by (simp add: env_defs)
  have 5: "read_csv count_only_env csv_missing = Inr df_missing"
    by (simp add: env_defs read_csv_missing)
  have r2: "read_csv count_only_env csv_ex = Inr df_ex"
    by (simp add: env_defs read_csv_ex)
  have 6: "feature_cols count_only_env = None \<or> feature_cols count_only_env = Some []"
    by (simp add: env_defs)
  have 7: "n_features_in ex_model = Some 2" by (simp add: ex_model_def)
  have 8: "(2::int) \<noteq> 0" by simp
  show ?thesis
    using count_only_validation [OF 1 allowed_data 3 4 5 6 7 8, of t0 no_session no_files]
      count_only_validation [OF 1 allowed_data 3 4 r2 6 7 8, of t0 no_session no_files]
    by (simp add: drop_ID_missing_shape X_ex_shape drop_ID_ex)
qed

text \<open>Claim C8 as stated fails for an expected count of zero: \<open>if expected and ...\<close>
  skips the comparison, and an upload with two columns reaches the model.\<close>

theorem zero_count_counterexample:
  "feature_cols zero_count_env = None \<and>
   model zero_count_env = Some (ex_model\<lparr>n_features_in := Some 0\<rparr>) \<and>
   n_features_in (ex_model\<lparr>n_features_in := Some 0\<rparr>) = Some 0 \<and>
   int (shape1 (drop_columns [''ID''] df_ex)) \<noteq> 0 \<and>
   model_calls (trace (predict zero_count_env POST (Some (''data.csv'', csv_ex)) t0 no_session no_files)) = [X_ex]"
  using run_zero_count by (simp add: env_defs drop_ID_ex_shape)

subsection \<open>A model that raises\<close>

text \<open>
  Claim C9. Whenever the model is called on a frame and raises, the request ends with
  the page \<open>Error\<close> carrying the message of the exception; no result table is written,
  the session is as it was, and the only file written is the saved upload. (The handler
  returns a page in every case: it is a total function into \<open>response\<close>.)
\<close>

theorem model_failure_is_caught:
  assumes "model e = Some m"
    and "ModelInvoked X \<in> set (trace (predict e meth (Some (filename, content)) t sess fs))"
    and "predict_fn m X = Inl msg"
  shows "response (predict e meth (Some (filename, content)) t sess fs) = PredictPage (Error msg) \<and>
         results_written (trace (predict e meth (Some (filename, content)) t sess fs)) = [] \<and>
         session_out (predict e meth (Some (filename, content)) t sess fs) = sess \<and>
         files_out (predict e meth (Some (filename, content)) t sess fs) =
           fs(path_join UPLOAD_FOLDER (secure_filename e filename) \<mapsto> Upload content)"
  using assms
  by (auto simp: predict_def predict_try_def quiet_def Let_def
      split: if_splits option.splits sum.splits)

text \<open>An estimator that raises on the example upload.\<close>

theorem model_failure_is_caught_witness:
  "model_calls (trace (predict failing_env POST (Some (''data.csv'', csv_ex)) t0 no_session no_files)) = [X_ex] \<and>
   response (predict failing_env POST (Some (''data.csv'', csv_ex)) t0 no_session no_files) =
     PredictPage (Error ''could not convert string to float'') \<and>
   results_written (trace (predict failing_env POST (Some (''data.csv'', csv_ex)) t0 no_session no_files)) = [] \<and>
   session_out (predict failing_env POST (Some (''data.csv'', csv_ex)) t0 no_session no_files) = no_session \<and>
   files_out (predict failing_env POST (Some (''data.csv'', csv_ex)) t0 no_session no_files) =
     no_files(''uploads/data.csv'' \<mapsto> Upload csv_ex)"
proof -
  have 1: "model failing_env = Some failing_model" by (simp add: env_defs)
  have 2: "ModelInvoked X_ex \<in> set (trace (predict failing_env POST (Some (''data.csv'', csv_ex)) t0 no_session no_files))"
    by (simp add: run_failing)
  have 3: "predict_fn failing_model X_ex = Inl ''could not convert string to float''"
    by (simp add: failing_model_def)
  have p: "path_join UPLOAD_FOLDER (secure_filename failing_env ''data.csv'') = ''uploads/data.csv''"
    by (simp add: env_defs upload_path_ex)
  show ?thesis
    using model_failure_is_caught [OF 1 2 3] by (simp add: p run_failing)
qed

subsection \<open>An empty feature list\<close>

text \<open>
  Claim C10. With an empty feature list the alignment step is the count-only check, and
  the prediction handler and every other handler answer, and act on the session and the
  files, exactly as with no feature list.
\<close>

theorem empty_feature_list_as_absent:
  "align (e\<lparr>feature_cols := Some []\<rparr>) m X = count_check m X \<and>
   predict (e\<lparr>feature_cols := Some []\<rparr>) meth file t sess fs =
     predict (e\<lparr>feature_cols := None\<rparr>) meth file t sess fs \<and>
   handle (e\<lparr>feature_cols := Some []\<rparr>) r sess fs = handle (e\<lparr>feature_cols := None\<rparr>) r sess fs"
proof -
  have t: "predict_try (e\<lparr>feature_cols := Some []\<rparr>) m tc fn c t sess fs =
        predict_try (e\<lparr>feature_cols := None\<rparr>) m tc fn c t sess fs" for m tc fn c t
    by (cases "read_csv e c") (simp_all add: predict_try_def align_empty_list align_no_list Let_def)
  have p: "predict (e\<lparr>feature_cols := Some []\<rparr>) meth upl t sess fs =
     predict (e\<lparr>feature_cols := None\<rparr>) meth upl t sess fs" for meth upl t
    by (simp add: predict_def t split: option.split)
  have "handle (e\<lparr>feature_cols := Some []\<rparr>) r sess fs = handle (e\<lparr>feature_cols := None\<rparr>) r sess fs"
    by (cases r)
      (simp_all add: p signup_def login_def dashboard_def split: option.split sum.split list.split)
  with p show ?thesis by (simp add: align_empty_list)
qed

text \<open>The swapped upload under both settings.\<close>

theorem empty_feature_list_as_absent_witness:
  "align (ex_env\<lparr>feature_cols := Some []\<rparr>) ex_model X_ex = count_check ex_model X_ex \<and>
   predict (ex_env\<lparr>feature_cols := Some []\<rparr>) POST (Some (''data.csv'', csv_swapped)) t0 no_session no_files =
     predict (ex_env\<lparr>feature_cols := None\<rparr>) POST (Some (''data.csv'', csv_swapped)) t0 no_session no_files \<and>
   handle (ex_env\<lparr>feature_cols := Some []\<rparr>) (Predict POST (Some (''data.csv'', csv_swapped)) t0)
       no_session no_files =
     handle (ex_env\<lparr>feature_cols := None\<rparr>) (Predict POST (Some (''data.csv'', csv_swapped)) t0)
       no_session no_files"
  by (rule empty_feature_list_as_absent)

end
